theory Spec2Isabelle
  imports Main
begin

section \<open>The vehicle dashboard: voice search and search execution\<close>

text \<open>
  The theory embeds the \<open>Dashboard\<close> component (lines 5 to 184 of its source
  file; line numbers below are lines of that file): its six React state cells, the
  search handler \<open>handleSearch\<close>, the voice handler \<open>handleVoiceSearch\<close> with the four
  callbacks it registers on the recognition object, and the speech output
  \<open>speakResult\<close>.

  The component is event driven. Every handler runs to completion on one event loop, so
  a handler is a function from the state of the page to its next state. What the browser
  keeps between two handlers is part of that state: the recognition objects that have been
  started, the callbacks waiting in \<open>setTimeout\<close>, the \<open>fetch\<close> calls that have not
  answered yet.

  Left out are the parts of the component that touch none of this: the list of all
  vehicles, loaded once into \<open>vehicles\<close> (lines 19 to 27), the logout and the
  navigation (lines 91 to 94, 101, 167).

  A handler is a closure of the render that created it. The only state cell a closure
  of this component reads is \<open>searchReg\<close> (line 37, inside \<open>handleSearch\<close>); every other
  cell is only written, through its setter. A closure is therefore represented by the
  value \<open>searchReg\<close> had in its render.
\<close>

subsection \<open>Strings\<close>

text \<open>
  A JavaScript string is the list of its UTF-16 code units, each below \<open>0x10000\<close>.
  \<open>units\<close> gives the code units of a literal written in ASCII.
\<close>

type_synonym jstring = "nat list"

definition units :: "string \<Rightarrow> jstring" where
  "units s = map of_char s"

text \<open>
  The white space of \<^verbatim>\<open>trim()\<close> and of \<^verbatim>\<open>\s\<close>, which are the same set: tab, line feed,
  vertical tab, form feed, carriage return, space, no-break space, the other space
  separators of Unicode (\<open>U+1680\<close>, \<open>U+2000\<close> to \<open>U+200A\<close>, \<open>U+202F\<close>, \<open>U+205F\<close>,
  \<open>U+3000\<close>), the line and paragraph separators and the byte order mark. Each is one
  code unit.
\<close>

definition is_space :: "nat \<Rightarrow> bool" where
  "is_space c =
     (c \<in> set [0x09, 0x0A, 0x0B, 0x0C, 0x0D, 0x20, 0xA0, 0x1680] \<or>
      (0x2000 \<le> c \<and> c \<le> 0x200A) \<or>
      c \<in> set [0x2028, 0x2029, 0x202F, 0x205F, 0x3000, 0xFEFF])"

text \<open>\<^verbatim>\<open>s.trim()\<close>: the white space at both ends goes, the white space inside stays.\<close>

definition trim :: "jstring \<Rightarrow> jstring" where
  "trim s = rev (dropWhile is_space (rev (dropWhile is_space s)))"

text \<open>
  \<^verbatim>\<open>s.replace(/\s+/g, "")\<close>: every maximal run of one or more white space code units is
  replaced by the empty string. The expression has no \<open>u\<close> flag and works on code units.
\<close>

function replace_ws :: "jstring \<Rightarrow> jstring" where
  "replace_ws [] = []"
| "replace_ws (c # cs) =
     (if is_space c then replace_ws (dropWhile is_space cs) else c # replace_ws cs)"
  by pat_completeness auto
termination
  by (relation "measure length") (auto simp: length_dropWhile_le less_Suc_eq_le)

text \<open>
  Surrogates. A high surrogate followed by a low surrogate stands for one code point from
  \<open>U+10000\<close> on; a surrogate in any other place stands for itself. \<open>code_points\<close> reads a
  string this way, \<open>from_code_points\<close> writes code points back as code units. A scalar
  value is a code point that is no surrogate.
\<close>

definition is_high :: "nat \<Rightarrow> bool" where
  "is_high c = (0xD800 \<le> c \<and> c \<le> 0xDBFF)"

definition is_low :: "nat \<Rightarrow> bool" where
  "is_low c = (0xDC00 \<le> c \<and> c \<le> 0xDFFF)"

definition surrogate :: "nat \<Rightarrow> bool" where
  "surrogate c = (0xD800 \<le> c \<and> c \<le> 0xDFFF)"

definition scalar :: "nat \<Rightarrow> bool" where
  "scalar c = (c < 0x110000 \<and> \<not> surrogate c)"

fun code_points :: "jstring \<Rightarrow> nat list" where
  "code_points (h # l # cs) =
     (if is_high h \<and> is_low l
      then (0x10000 + (h - 0xD800) * 0x400 + (l - 0xDC00)) # code_points cs
      else h # code_points (l # cs))"
| "code_points cs = cs"

definition encode_cp :: "nat \<Rightarrow> jstring" where
  "encode_cp c =
     (if c < 0x10000 then [c]
      else [0xD800 + (c - 0x10000) div 0x400, 0xDC00 + (c - 0x10000) mod 0x400])"

definition from_code_points :: "nat list \<Rightarrow> jstring" where
  "from_code_points cps = concat (map encode_cp cps)"

text \<open>
  \<^verbatim>\<open>s.toUpperCase()\<close>: the string is read as code points, every code point is replaced
  by its upper case mapping (one code point or several, as for the sharp s), and the
  result is written back as code units. The mapping is the one of the Unicode Character
  Database, without regard to locale or context. It is a table of the runtime, not code
  of the component, and is the parameter \<open>up\<close> here. A surrogate has no mapping.
\<close>

definition upper_cp :: "(nat \<Rightarrow> nat list) \<Rightarrow> nat \<Rightarrow> nat list" where
  "upper_cp up c = (if surrogate c then [c] else up c)"

definition toUpperCase :: "(nat \<Rightarrow> nat list) \<Rightarrow> jstring \<Rightarrow> jstring" where
  "toUpperCase up s = from_code_points (concat (map (upper_cp up) (code_points s)))"

text \<open>
  An excerpt of that table for the examples: the entries of Basic Latin, of the Latin-1
  Supplement (the micro sign goes to the Greek capital mu, the sharp s to \<open>SS\<close>, the y
  with diaeresis to \<open>U+0178\<close>) and of the Deseret small letters \<open>U+10428\<close> to
  \<open>U+1044F\<close>. Elsewhere the excerpt has no entry and leaves a code point as it is; no
  example reads it there.
\<close>

definition upper_excerpt :: "nat \<Rightarrow> nat list" where
  "upper_excerpt c =
     (if 0x61 \<le> c \<and> c \<le> 0x7A then [c - 0x20]
      else if c = 0xB5 then [0x39C]
      else if c = 0xDF then [0x53, 0x53]
      else if 0xE0 \<le> c \<and> c \<le> 0xFE \<and> c \<noteq> 0xF7 then [c - 0x20]
      else if c = 0xFF then [0x178]
      else if 0x10428 \<le> c \<and> c \<le> 0x1044F then [c - 0x28]
      else [c])"

text \<open>
  A well-formed string: code units below \<open>0x10000\<close>, and no surrogate outside a pair.
\<close>

definition well_formed :: "jstring \<Rightarrow> bool" where
  "well_formed s = (list_all (\<lambda>c. c < 0x10000) s \<and> list_all scalar (code_points s))"

text \<open>
  Line 64: \<^verbatim>\<open>const transcript = event.results[0][0].transcript.trim().toUpperCase()\<close>.
\<close>

definition heard :: "(nat \<Rightarrow> nat list) \<Rightarrow> jstring \<Rightarrow> jstring" where
  "heard up raw = toUpperCase up (trim raw)"

text \<open>Line 65: the argument of \<open>setSearchReg\<close>, \<^verbatim>\<open>transcript.replace(/\s+/g, "")\<close>.\<close>

definition normalize_transcript :: "(nat \<Rightarrow> nat list) \<Rightarrow> jstring \<Rightarrow> jstring" where
  "normalize_transcript up raw = replace_ws (heard up raw)"

subsection \<open>JSON values\<close>

text \<open>
  \<^verbatim>\<open>res.json()\<close> yields any JSON value. The component does two things with a value it
  has not made itself: it tests it with \<open>||\<close>, and it turns it into a string. A number
  is therefore given by what these two see of it: whether it counts as true (it is not
  zero), and the text JavaScript prints for it. An object is the list of its members.
\<close>

datatype json =
    JNull
  | JBool bool
  | JNum bool jstring
  | JStr jstring
  | JArr "json list"
  | JObj "(jstring \<times> json) list"

text \<open>What \<open>||\<close> tests.\<close>

fun truthy :: "json \<Rightarrow> bool" where
  "truthy JNull = False"
| "truthy (JBool b) = b"
| "truthy (JNum nonzero printed) = nonzero"
| "truthy (JStr s) = (s \<noteq> [])"
| "truthy (JArr xs) = True"
| "truthy (JObj kvs) = True"

text \<open>
  The message of the \<open>TypeError\<close> that reading a member of \<open>null\<close> raises, in the
  wording of V8.
\<close>

definition type_error :: "jstring \<Rightarrow> jstring" where
  "type_error p =
     units ''Cannot read properties of null (reading '' @ [0x27] @ p @ [0x27] @ units '')''"

text \<open>
  \<^verbatim>\<open>v.p\<close> for the member names of this component (\<open>detail\<close>, \<open>brand\<close>, \<open>model\<close>,
  \<open>reg\<close>, \<open>price\<close>): \<open>Inl\<close> is the message of the error raised, \<open>Inr None\<close> is
  \<open>undefined\<close>. Strings, numbers, booleans and arrays have no member of these names.
\<close>

fun member_of :: "json \<Rightarrow> jstring \<Rightarrow> jstring + json option" where
  "member_of JNull p = Inl (type_error p)"
| "member_of (JObj kvs) p = Inr (map_of kvs p)"
| "member_of v p = Inr None"

definition join :: "jstring list \<Rightarrow> jstring" where
  "join ss = (case ss of [] \<Rightarrow> [] | s # rest \<Rightarrow> s @ concat (map (\<lambda>t. units '','' @ t) rest))"

text \<open>
  The conversion to a string that \<^verbatim>\<open>new Error(v)\<close> and a template literal apply. An
  array prints its elements separated by commas, \<open>null\<close> elements as nothing.
\<close>

fun js_to_string :: "json \<Rightarrow> jstring" where
  "js_to_string JNull = units ''null''"
| "js_to_string (JBool b) = (if b then units ''true'' else units ''false'')"
| "js_to_string (JNum nonzero printed) = printed"
| "js_to_string (JStr s) = s"
| "js_to_string (JArr xs) =
     join (map (\<lambda>x. if x = JNull then [] else js_to_string x) xs)"
| "js_to_string (JObj kvs) = units ''[object Object]''"

text \<open>The same conversion for a member that may be \<open>undefined\<close>.\<close>

definition template :: "json option \<Rightarrow> jstring" where
  "template m = (case m of None \<Rightarrow> units ''undefined'' | Some v \<Rightarrow> js_to_string v)"

text \<open>\<^verbatim>\<open>a || b\<close> with \<open>a\<close> a member that may be \<open>undefined\<close>.\<close>

definition js_or :: "json option \<Rightarrow> json \<Rightarrow> json" where
  "js_or a b = (case a of None \<Rightarrow> b | Some v \<Rightarrow> if truthy v then v else b)"

subsection \<open>The state of the page\<close>

text \<open>The six \<open>useState\<close> cells of lines 6 to 11.\<close>

record dashboard =
  searchReg :: jstring
  vehicles :: json
  foundVehicle :: json
  error :: jstring
  actionMsg :: jstring
  isListening :: bool

text \<open>
  A recognition object after lines 54 to 77 have configured it. \<open>handlers\<close> stands for
  the four callbacks: it is \<open>searchReg\<close> of the render that created them.
\<close>

record recognition =
  lang :: jstring
  continuous :: bool
  interimResults :: bool
  handlers :: jstring

text \<open>
  A callback waiting in \<open>setTimeout\<close> (line 68): \<^verbatim>\<open>() => handleSearch()\<close>, with
  \<open>handleSearch\<close> the closure of the render whose \<open>searchReg\<close> is \<open>callback\<close>.
\<close>

record timer =
  delay :: nat
  callback :: jstring

text \<open>
  \<open>supported\<close>: \<^verbatim>\<open>window.SpeechRecognition || window.webkitSpeechRecognition\<close> exists
  (line 14 to 16). \<open>synthesis\<close>: \<^verbatim>\<open>window.speechSynthesis\<close> exists (line 83).
  \<open>upper_case\<close>: the upper case mapping of the runtime, which \<open>toUpperCase\<close> applies.
  \<open>sessions\<close>: the calls of \<open>start()\<close> (line 78), oldest first, each with the
  recognition object as it was configured at the call. \<open>timers\<close>: the waiting
  callbacks, oldest first; all have the same delay, so they fire in this order.
  \<open>requests\<close>: the URLs of the \<open>fetch\<close> calls of line 37 that have not answered.
  \<open>spoken\<close>: the texts given to \<open>synth.speak\<close>.
\<close>

record world =
  supported :: bool
  synthesis :: bool
  upper_case :: "nat \<Rightarrow> nat list"
  ui :: dashboard
  alerts :: "jstring list"
  console :: "jstring list"
  sessions :: "recognition list"
  timers :: "timer list"
  requests :: "jstring list"
  spoken :: "jstring list"

definition initial :: "bool \<Rightarrow> bool \<Rightarrow> (nat \<Rightarrow> nat list) \<Rightarrow> world" where
  "initial cap syn up =
     \<lparr>supported = cap, synthesis = syn, upper_case = up,
      ui = \<lparr>searchReg = [], vehicles = JArr [], foundVehicle = JNull, error = [],
            actionMsg = [], isListening = False\<rparr>,
      alerts = [], console = [], sessions = [], timers = [], requests = [], spoken = []\<rparr>"

subsection \<open>Search execution\<close>

definition cars_url :: jstring where
  "cars_url = units ''http://127.0.0.1:8000/cars/''"

text \<open>
  \<open>handleSearch\<close> up to its first \<open>await\<close> (lines 31 to 37). \<open>sr\<close> is \<open>searchReg\<close>
  of the render the closure belongs to. \<open>e.preventDefault()\<close> changes nothing here.
\<close>

definition handleSearch :: "jstring \<Rightarrow> world \<Rightarrow> world" where
  "handleSearch sr w =
     w\<lparr>ui := (ui w)\<lparr>error := [], foundVehicle := JNull, actionMsg := []\<rparr>,
       requests := requests w @ [cars_url @ sr]\<rparr>"

text \<open>
  What the gateway answers: \<open>fetch\<close> or \<open>res.json()\<close> rejects with an error of the
  given message, or the response arrives with its \<open>ok\<close> flag and its parsed body.
\<close>

datatype response =
    Rejected jstring
  | Replied bool json

text \<open>
  Line 39 for a response that is not \<open>ok\<close>: the message of what
  \<^verbatim>\<open>throw new Error(data.detail || "Vehicle not found")\<close> raises, which is a
  \<open>TypeError\<close> when \<open>data\<close> is \<open>null\<close>.
\<close>

definition failure_message :: "json \<Rightarrow> jstring" where
  "failure_message data =
     (case member_of data (units ''detail'') of
        Inl m \<Rightarrow> m
      | Inr detail \<Rightarrow> js_to_string (js_or detail (JStr (units ''Vehicle not found''))))"

text \<open>The text of line 85; the rupee sign is \<open>U+20B9\<close>.\<close>

definition speech_text :: "json \<Rightarrow> jstring + jstring" where
  "speech_text vehicle =
     (case member_of vehicle (units ''brand'') of Inl m \<Rightarrow> Inl m | Inr brand \<Rightarrow>
     (case member_of vehicle (units ''model'') of Inl m \<Rightarrow> Inl m | Inr model \<Rightarrow>
     (case member_of vehicle (units ''reg'') of Inl m \<Rightarrow> Inl m | Inr reg \<Rightarrow>
     (case member_of vehicle (units ''price'') of Inl m \<Rightarrow> Inl m | Inr price \<Rightarrow>
        Inr (units ''Vehicle '' @ template brand @ units '' '' @ template model
             @ units '', Registration '' @ template reg @ units '', Price '' @ [0x20B9]
             @ template price)))))"

text \<open>\<open>speakResult\<close> (lines 82 to 89); \<open>Inl\<close> is the message of the error it raises.\<close>

definition speakResult :: "json \<Rightarrow> world \<Rightarrow> jstring + world" where
  "speakResult vehicle w =
     (if \<not> synthesis w then Inr w
      else case speech_text vehicle of
             Inl m \<Rightarrow> Inl m
           | Inr text \<Rightarrow> Inr (w\<lparr>spoken := spoken w @ [text]\<rparr>))"

text \<open>
  \<open>handleSearch\<close> from the answer on (lines 37 to 44): the rest of the \<open>try\<close> block,
  and \<open>catch\<close> storing the message of whatever was raised.
\<close>

definition search_done :: "response \<Rightarrow> world \<Rightarrow> world" where
  "search_done r w =
     (case r of
        Rejected m \<Rightarrow> w\<lparr>ui := (ui w)\<lparr>error := m\<rparr>\<rparr>
      | Replied ok data \<Rightarrow>
          if \<not> ok then w\<lparr>ui := (ui w)\<lparr>error := failure_message data\<rparr>\<rparr>
          else
            (let w1 = w\<lparr>ui := (ui w)\<lparr>foundVehicle := data\<rparr>\<rparr>
             in case speakResult data w1 of
                  Inl m \<Rightarrow> w1\<lparr>ui := (ui w1)\<lparr>error := m\<rparr>\<rparr>
                | Inr w2 \<Rightarrow> w2))"

subsection \<open>Voice recognition\<close>

definition unsupported_notice :: jstring where
  "unsupported_notice = units ''Voice recognition not supported in this browser!''"

text \<open>
  The three status texts of lines 60, 66 and 74. Each begins with an emoji: the
  microphone \<open>U+1F3A4\<close> (a surrogate pair), the check mark \<open>U+2705\<close>, the cross mark
  \<open>U+274C\<close>.
\<close>

definition listening_msg :: jstring where
  "listening_msg =
     [0xD83C, 0xDFA4] @ units '' Listening... Please say the registration number''"

definition heard_msg :: "jstring \<Rightarrow> jstring" where
  "heard_msg transcript = [0x2705] @ units '' Heard: '' @ transcript"

definition failure_msg :: jstring where
  "failure_msg = [0x274C] @ units '' Could not recognize voice. Try again.''"

text \<open>
  \<open>handleVoiceSearch\<close> (lines 48 to 79) in a render whose \<open>searchReg\<close> is \<open>sr\<close>.
  Without the capability it alerts and returns. With it, it sets the three options,
  assigns the four callbacks and calls \<open>start()\<close>; it calls no setter itself.
\<close>

definition handleVoiceSearch :: "jstring \<Rightarrow> world \<Rightarrow> world" where
  "handleVoiceSearch sr w =
     (if \<not> supported w then w\<lparr>alerts := alerts w @ [unsupported_notice]\<rparr>
      else w\<lparr>sessions := sessions w @
                [\<lparr>lang = units ''en-IN'', continuous = False, interimResults = False,
                  handlers = sr\<rparr>]\<rparr>)"

text \<open>\<open>recognition.onstart\<close> (lines 58 to 61).\<close>

definition onstart :: "world \<Rightarrow> world" where
  "onstart w = w\<lparr>ui := (ui w)\<lparr>isListening := True, actionMsg := listening_msg\<rparr>\<rparr>"

text \<open>
  \<open>recognition.onresult\<close> (lines 63 to 69), registered in a render whose \<open>searchReg\<close>
  is \<open>sr\<close>, for an event whose first alternative of its first result reads \<open>raw\<close>.
  The callback it schedules calls \<open>handleSearch\<close> of that same render.
\<close>

definition onresult :: "jstring \<Rightarrow> jstring \<Rightarrow> world \<Rightarrow> world" where
  "onresult sr raw w =
     w\<lparr>ui := (ui w)\<lparr>searchReg := normalize_transcript (upper_case w) raw,
                     actionMsg := heard_msg (heard (upper_case w) raw),
                     isListening := False\<rparr>,
       timers := timers w @ [\<lparr>delay = 800, callback = sr\<rparr>]\<rparr>"

text \<open>\<open>recognition.onerror\<close> (lines 71 to 75).\<close>

definition onerror :: "jstring \<Rightarrow> world \<Rightarrow> world" where
  "onerror code w =
     w\<lparr>console := console w @ [units ''Voice recognition error: '' @ code],
       ui := (ui w)\<lparr>isListening := False, actionMsg := failure_msg\<rparr>\<rparr>"

text \<open>\<open>recognition.onend\<close> (line 77).\<close>

definition onend :: "world \<Rightarrow> world" where
  "onend w = w\<lparr>ui := (ui w)\<lparr>isListening := False\<rparr>\<rparr>"

subsection \<open>Events\<close>

text \<open>
  What can happen to the page. \<open>ClickMic\<close>: the microphone button (line 122).
  \<open>Submit\<close>: the search form (line 110); its input is \<open>required\<close> (line 116), so the
  browser does not submit it while the input is empty. \<open>Type\<close>: the input changes
  (line 115). \<open>OnStart\<close>, \<open>OnResult\<close>, \<open>OnError\<close>, \<open>OnEnd\<close>: a started recognition
  object, given by its position in \<open>sessions\<close>, reports. \<open>Timeout\<close>: the oldest waiting
  callback fires. \<open>Response\<close>: a waiting request, given by its position in \<open>requests\<close>,
  is answered.

  The button and the form belong to the current render, whose \<open>searchReg\<close> is the one of
  the state; a recognition object and a waiting callback carry the closure they were
  given.
\<close>

datatype event =
    ClickMic
  | Submit
  | Type jstring
  | OnStart nat
  | OnResult nat jstring
  | OnError nat jstring
  | OnEnd nat
  | Timeout
  | Response nat response

fun step :: "event \<Rightarrow> world \<Rightarrow> world" where
  "step ClickMic w = handleVoiceSearch (searchReg (ui w)) w"
| "step Submit w = (if searchReg (ui w) = [] then w else handleSearch (searchReg (ui w)) w)"
| "step (Type s) w = w\<lparr>ui := (ui w)\<lparr>searchReg := s\<rparr>\<rparr>"
| "step (OnStart i) w = (if i < length (sessions w) then onstart w else w)"
| "step (OnResult i raw) w =
     (if i < length (sessions w) then onresult (handlers (sessions w ! i)) raw w else w)"
| "step (OnError i code) w = (if i < length (sessions w) then onerror code w else w)"
| "step (OnEnd i) w = (if i < length (sessions w) then onend w else w)"
| "step Timeout w =
     (case timers w of
        [] \<Rightarrow> w
      | t # ts \<Rightarrow> handleSearch (callback t) (w\<lparr>timers := ts\<rparr>))"
| "step (Response i r) w =
     (if i < length (requests w)
      then search_done r (w\<lparr>requests := take i (requests w) @ drop (Suc i) (requests w)\<rparr>)
      else w)"

fun run :: "event list \<Rightarrow> world \<Rightarrow> world" where
  "run [] w = w"
| "run (e # es) w = run es (step e w)"



section \<open>Properties\<close>

subsection \<open>Normalization\<close>

lemmas string_defs =
  units_def is_space_def is_high_def is_low_def surrogate_def scalar_def encode_cp_def
  from_code_points_def upper_cp_def toUpperCase_def trim_def heard_def
  normalize_transcript_def upper_excerpt_def well_formed_def

lemma replace_ws_filter: "replace_ws s = filter (\<lambda>c. \<not> is_space c) s"
proof (induction s rule: replace_ws.induct)
  case 1
  show ?case by simp
next
  case (2 c cs)
  have "filter (\<lambda>c. \<not> is_space c) (dropWhile is_space cs) = filter (\<lambda>c. \<not> is_space c) cs"
    by (induction cs) auto
  with 2 show ?case by simp
qed

lemma trim_no_space:
  assumes "\<forall>c\<in>set s. \<not> is_space c"
  shows "trim s = s"
proof -
  have "dropWhile is_space s = s"
    using assms by (intro dropWhile_id) simp
  moreover have "dropWhile is_space (rev s) = rev s"
    using assms by (intro dropWhile_id) simp
  ultimately show ?thesis
    by (simp add: trim_def)
qed

text \<open>White space is never a surrogate, so taking it away at an end splits no pair.\<close>

lemma space_not_surrogate: "is_space c \<Longrightarrow> \<not> is_high c \<and> \<not> is_low c \<and> c < 0x10000"
  by (auto simp: is_space_def is_high_def is_low_def)

lemma code_points_Cons: "\<not> is_high c \<Longrightarrow> code_points (c # s) = c # code_points s"
  by (cases s) simp_all

lemma code_points_snoc: "\<not> is_low c \<Longrightarrow> code_points (s @ [c]) = code_points s @ [c]"
  by (induction s rule: code_points.induct) simp_all

lemma well_formed_tl: "is_space c \<Longrightarrow> well_formed (c # s) \<Longrightarrow> well_formed s"
  using space_not_surrogate [of c] by (simp add: well_formed_def code_points_Cons)

lemma well_formed_dropWhile: "well_formed s \<Longrightarrow> well_formed (dropWhile is_space s)"
proof (induction s)
  case Nil
  then show ?case by simp
next
  case (Cons c s)
  then show ?case
    using well_formed_tl [of c s] by simp
qed

lemma well_formed_butlast: "is_space c \<Longrightarrow> well_formed (s @ [c]) \<Longrightarrow> well_formed s"
  using space_not_surrogate [of c] by (simp add: well_formed_def code_points_snoc)

lemma well_formed_drop_end: "well_formed s \<Longrightarrow> well_formed (rev (dropWhile is_space (rev s)))"
proof (induction s rule: rev_induct)
  case Nil
  then show ?case by simp
next
  case (snoc c s)
  then show ?case
    using well_formed_butlast [of c s] by simp
qed

lemma well_formed_trim: "well_formed s \<Longrightarrow> well_formed (trim s)"
  by (simp add: trim_def well_formed_dropWhile well_formed_drop_end)

text \<open>Writing scalar values as code units and reading them back gives them again.\<close>

lemma encode_cp_pair:
  assumes "0x10000 \<le> c" and "c < 0x110000"
  shows "is_high (0xD800 + (c - 0x10000) div 0x400)"
    and "is_low (0xDC00 + (c - 0x10000) mod 0x400)"
    and "0x10000 + (0xD800 + (c - 0x10000) div 0x400 - 0xD800) * 0x400 +
           (0xDC00 + (c - 0x10000) mod 0x400 - 0xDC00) = c"
  using assms by (simp_all add: is_high_def is_low_def)

lemma code_points_encode: "list_all scalar cps \<Longrightarrow> code_points (from_code_points cps) = cps"
proof (induction cps)
  case Nil
  then show ?case by (simp add: from_code_points_def)
next
  case (Cons c cps)
  then have sc: "scalar c" and ih: "code_points (from_code_points cps) = cps"
    by simp_all
  show ?case
  proof (cases "c < 0x10000")
    case True
    with sc have "\<not> is_high c"
      by (auto simp: scalar_def surrogate_def is_high_def)
    with True ih show ?thesis
      by (simp add: from_code_points_def encode_cp_def code_points_Cons)
  next
    case False
    with sc have r: "0x10000 \<le> c" "c < 0x110000"
      by (simp_all add: scalar_def)
    from encode_cp_pair [OF r] False ih show ?thesis
      by (simp add: from_code_points_def encode_cp_def)
  qed
qed

lemma filter_encode_cp:
  "scalar c \<Longrightarrow>
   filter (\<lambda>c. \<not> is_space c) (encode_cp c) = (if is_space c then [] else encode_cp c)"
proof (cases "c < 0x10000")
  case True
  then show ?thesis by (simp add: encode_cp_def)
next
  case False
  assume "scalar c"
  with False have r: "0x10000 \<le> c" "c < 0x110000"
    by (simp_all add: scalar_def)
  from encode_cp_pair(1,2) [OF r] space_not_surrogate False show ?thesis
    by (auto simp: encode_cp_def)
qed

lemma filter_encode:
  "list_all scalar cps \<Longrightarrow>
   filter (\<lambda>c. \<not> is_space c) (from_code_points cps) =
   from_code_points (filter (\<lambda>c. \<not> is_space c) cps)"
proof (induction cps)
  case Nil
  then show ?case by (simp add: from_code_points_def)
next
  case (Cons c cps)
  then show ?case
    using filter_encode_cp [of c] by (simp add: from_code_points_def)
qed

lemma concat_map_fixed: "(\<And>d. d \<in> set xs \<Longrightarrow> f d = [d]) \<Longrightarrow> concat (map f xs) = xs"
  by (induction xs) simp_all

lemma upper_excerpt_stable:
  "scalar c \<Longrightarrow> d \<in> set (upper_excerpt c) \<Longrightarrow> scalar d \<and> upper_excerpt d = [d]"
  by (auto simp: upper_excerpt_def scalar_def surrogate_def split: if_splits)

text \<open>
  C8, as the code has it. Take a well-formed transcript, and an upper case mapping that
  maps scalar values to scalar values which it leaves as they are (what is upper case
  already has itself as its upper case). Then normalizing a second time changes nothing:
  the key has no white space left to trim or to strip, taking the white space away has
  split or joined no surrogate pair, and its code points are upper case already.
\<close>

theorem normalize_well_formed_idempotent:
  assumes wf: "well_formed T"
    and table: "\<And>c d. scalar c \<Longrightarrow> d \<in> set (up c) \<Longrightarrow> scalar d \<and> up d = [d]"
  shows "normalize_transcript up (normalize_transcript up T) = normalize_transcript up T"
proof -
  let ?A = "code_points (trim T)"
  let ?P = "concat (map (upper_cp up) ?A)"
  let ?Q = "filter (\<lambda>c. \<not> is_space c) ?P"
  let ?K = "normalize_transcript up T"
  from well_formed_trim [OF wf] have A: "list_all scalar ?A"
    by (simp add: well_formed_def)
  have P: "scalar d \<and> upper_cp up d = [d]" if "d \<in> set ?P" for d
  proof -
    from that obtain c where c: "c \<in> set ?A" and d: "d \<in> set (upper_cp up c)"
      by auto
    from A c have sc: "scalar c"
      by (simp add: list_all_iff)
    then have "upper_cp up c = up c"
      by (simp add: upper_cp_def scalar_def)
    with d table [OF sc, of d] show ?thesis
      by (simp add: upper_cp_def scalar_def)
  qed
  then have Ps: "list_all scalar ?P"
    by (simp add: list_all_iff)
  have K: "?K = from_code_points ?Q"
    by (simp add: normalize_transcript_def heard_def toUpperCase_def replace_ws_filter
                  filter_encode [OF Ps])
  have Qs: "list_all scalar ?Q"
    using Ps by (auto simp: list_all_iff)
  have ns: "\<forall>c\<in>set ?K. \<not> is_space c"
    by (simp add: normalize_transcript_def replace_ws_filter)
  then have t: "trim ?K = ?K"
    by (rule trim_no_space)
  have cp: "code_points ?K = ?Q"
    unfolding K by (rule code_points_encode [OF Qs])
  have "concat (map (upper_cp up) ?Q) = ?Q"
  proof (rule concat_map_fixed)
    fix d
    assume "d \<in> set ?Q"
    then have "d \<in> set ?P"
      by simp
    from P [OF this] show "upper_cp up d = [d]"
      by blast
  qed
  then have u: "toUpperCase up ?K = ?K"
    by (simp add: toUpperCase_def cp K [symmetric])
  have f: "filter (\<lambda>c. \<not> is_space c) ?K = ?K"
    using ns by simp
  show ?thesis
    by (simp add: normalize_transcript_def [of up ?K] heard_def t u replace_ws_filter f)
qed

text \<open>
  The theorem at work on a transcript with white space and letters beyond ASCII, a sharp
  s that becomes two letters, and a Deseret small letter written as a surrogate pair.
\<close>

theorem normalize_well_formed_idempotent_witness:
  "well_formed [0x20, 0x63, 0x61, 0x66, 0xE9, 0xA0, 0x31, 0xDF, 0xD801, 0xDC28, 0x3000] \<and>
   normalize_transcript upper_excerpt
     [0x20, 0x63, 0x61, 0x66, 0xE9, 0xA0, 0x31, 0xDF, 0xD801, 0xDC28, 0x3000] =
     [0x43, 0x41, 0x46, 0xC9, 0x31, 0x53, 0x53, 0xD801, 0xDC00] \<and>
   normalize_transcript upper_excerpt
     (normalize_transcript upper_excerpt
        [0x20, 0x63, 0x61, 0x66, 0xE9, 0xA0, 0x31, 0xDF, 0xD801, 0xDC28, 0x3000]) =
     [0x43, 0x41, 0x46, 0xC9, 0x31, 0x53, 0x53, 0xD801, 0xDC00]"
proof -
  let ?T = "[0x20, 0x63, 0x61, 0x66, 0xE9, 0xA0, 0x31, 0xDF, 0xD801, 0xDC28, 0x3000] :: jstring"
  have wf: "well_formed ?T"
    by (simp add: string_defs)
  have v: "normalize_transcript upper_excerpt ?T =
             [0x43, 0x41, 0x46, 0xC9, 0x31, 0x53, 0x53, 0xD801, 0xDC00]"
    by (simp add: string_defs)
  from normalize_well_formed_idempotent [of ?T upper_excerpt, OF wf upper_excerpt_stable]
  have "normalize_transcript upper_excerpt (normalize_transcript upper_excerpt ?T) =
          normalize_transcript upper_excerpt ?T"
    by simp
  with wf v show ?thesis
    by (simp only:)
qed

text \<open>
  C8 as stated fails on a transcript that is not well formed: a high surrogate, a space,
  a low surrogate. The first pass leaves both surrogates as they are and takes the space
  away, which joins them into the Deseret small letter \<open>U+10428\<close>; the second pass turns
  that letter into its capital \<open>U+10400\<close>.
\<close>

theorem normalize_joins_surrogates:
  "normalize_transcript upper_excerpt [0xD801, 0x20, 0xDC28] = [0xD801, 0xDC28] \<and>
   normalize_transcript upper_excerpt (normalize_transcript upper_excerpt [0xD801, 0x20, 0xDC28]) =
     [0xD801, 0xDC00]"
  by (simp add: string_defs)

subsection \<open>Runs\<close>

lemmas handler_defs =
  handleSearch_def handleVoiceSearch_def onstart_def onresult_def onerror_def onend_def

lemmas eval_defs = handler_defs initial_def cars_url_def string_defs

lemma run_append: "run (es @ fs) w = run fs (run es w)"
  by (induction es arbitrary: w) auto






subsection \<open>The answer of the gateway\<close>











subsection \<open>Search execution\<close>







text \<open>
  C10. \<open>handleSearch\<close> tests nothing about its key: whatever \<open>searchReg\<close> of its closure
  is, the empty string included, it clears result and error and sends the request for that
  key. A waiting callback that fires does just that, whatever the state holds. Only the
  form holds an empty key back.
\<close>

theorem search_without_key_check:
  "error (ui (handleSearch sr w)) = [] \<and>
   foundVehicle (ui (handleSearch sr w)) = JNull \<and>
   requests (handleSearch sr w) = requests w @ [cars_url @ sr] \<and>
   (timers w = t # ts \<longrightarrow>
      requests (step Timeout w) = requests w @ [cars_url @ callback t] \<and>
      timers (step Timeout w) = ts) \<and>
   (searchReg (ui w) = [] \<longrightarrow> step Submit w = w) \<and>
   (searchReg (ui w) \<noteq> [] \<longrightarrow> step Submit w = handleSearch (searchReg (ui w)) w)"
  by (simp add: handleSearch_def)

text \<open>
  A transcript of nothing but spaces: the key is empty, the form would not submit, and
  the callback sends the request all the same.
\<close>

theorem search_without_key_check_witness:
  "searchReg (ui (run [ClickMic, OnResult 0 (units ''   '')] (initial True True upper_excerpt))) = [] \<and>
   timers (run [ClickMic, OnResult 0 (units ''   '')] (initial True True upper_excerpt)) =
     [\<lparr>delay = 800, callback = []\<rparr>] \<and>
   requests (step Timeout (run [ClickMic, OnResult 0 (units ''   '')] (initial True True upper_excerpt))) =
     [units ''http://127.0.0.1:8000/cars/''] \<and>
   step Submit (run [ClickMic, OnResult 0 (units ''   '')] (initial True True upper_excerpt)) =
     run [ClickMic, OnResult 0 (units ''   '')] (initial True True upper_excerpt) \<and>
   searchReg (ui (step (Type (units ''KA05'')) (initial True True upper_excerpt))) \<noteq> [] \<and>
   requests (step Submit (step (Type (units ''KA05'')) (initial True True upper_excerpt))) =
     [units ''http://127.0.0.1:8000/cars/KA05'']"
proof -
  let ?w = "run [ClickMic, OnResult 0 (units ''   '')] (initial True True upper_excerpt)"
  let ?v = "step (Type (units ''KA05'')) (initial True True upper_excerpt)"
  have a: "searchReg (ui ?w) = []"
    by (simp add: eval_defs)
  have b: "timers ?w = [\<lparr>delay = 800, callback = []\<rparr>]" "requests ?w = []"
    by (simp_all add: handler_defs initial_def)
  have c: "searchReg (ui ?v) = units ''KA05''" "requests ?v = []"
    by (simp_all add: initial_def)
  from search_without_key_check [of "[]" ?w "\<lparr>delay = 800, callback = []\<rparr>" "[]"] a b
  have one: "requests (step Timeout ?w) = [units ''http://127.0.0.1:8000/cars/'']"
    "step Submit ?w = ?w"
    by (simp_all add: cars_url_def)
  from search_without_key_check [of "units ''KA05''" ?v "\<lparr>delay = 800, callback = []\<rparr>" "[]"] c
  have two: "requests (step Submit ?v) = [units ''http://127.0.0.1:8000/cars/KA05'']"
    by (simp add: cars_url_def units_def)
  from a b(1) c(1) one two show ?thesis
    by (simp add: units_def)
qed

subsection \<open>Starting the recognition\<close>

lemma step_unsupported:
  "\<not> supported w \<Longrightarrow> sessions w = [] \<Longrightarrow> \<not> isListening (ui w) \<Longrightarrow>
   \<not> supported (step e w) \<and> sessions (step e w) = [] \<and> \<not> isListening (ui (step e w))"
  by (cases e)
     (auto simp: handler_defs search_done_def speakResult_def Let_def
           split: list.splits response.splits sum.splits)

lemma run_unsupported:
  "\<not> supported w \<Longrightarrow> sessions w = [] \<Longrightarrow> \<not> isListening (ui w) \<Longrightarrow>
   \<not> supported (run es w) \<and> sessions (run es w) = [] \<and> \<not> isListening (ui (run es w))"
proof (induction es arbitrary: w)
  case Nil
  then show ?case by simp
next
  case (Cons e es)
  from step_unsupported [OF Cons.prems, of e] Cons.IH [of "step e w"]
  show ?case by simp
qed

text \<open>
  C4. Without the capability, a click on the microphone raises the alert and changes
  nothing else: every state cell, the started recognitions, the waiting callbacks and
  requests are as before. On a page that never had the capability, whatever happened
  before the click, the page is not listening after it and no recognition was started.
\<close>

theorem capability_unavailable:
  "(\<not> supported w \<longrightarrow> step ClickMic w = w\<lparr>alerts := alerts w @ [unsupported_notice]\<rparr>) \<and>
   \<not> isListening (ui (run (es @ [ClickMic]) (initial False syn up))) \<and>
   sessions (run (es @ [ClickMic]) (initial False syn up)) = []"
proof -
  have "\<not> supported (initial False syn up)" "sessions (initial False syn up) = []"
    "\<not> isListening (ui (initial False syn up))"
    by (simp_all add: initial_def)
  from run_unsupported [OF this, of "es @ [ClickMic]"] show ?thesis
    by (simp add: handleVoiceSearch_def)
qed

theorem capability_unavailable_witness:
  "\<not> supported (initial False True upper_excerpt) \<and>
   step ClickMic (initial False True upper_excerpt) =
     (initial False True upper_excerpt)
       \<lparr>alerts := [units ''Voice recognition not supported in this browser!'']\<rparr> \<and>
   \<not> isListening (ui (run ([OnStart 0, ClickMic] @ [ClickMic]) (initial False True upper_excerpt)))"
  using capability_unavailable
          [of "initial False True upper_excerpt" "[OnStart 0, ClickMic]" True upper_excerpt]
  by (simp add: initial_def unsupported_notice_def handleVoiceSearch_def)

text \<open>
  C5, as the code has it. With the capability, a click on the microphone starts a
  recognition object set to the language \<open>en-IN\<close>, not continuous, without interim
  results, carrying the callbacks of the current render, and changes nothing else: the
  call sets neither the listening flag nor the status text. Both are set when that
  recognition reports that it has started.
\<close>

theorem start_voice_search:
  "supported w \<Longrightarrow>
   step ClickMic w =
     w\<lparr>sessions := sessions w @
         [\<lparr>lang = units ''en-IN'', continuous = False, interimResults = False,
           handlers = searchReg (ui w)\<rparr>]\<rparr> \<and>
   ui (step ClickMic w) = ui w \<and>
   isListening (ui (step (OnStart (length (sessions w))) (step ClickMic w))) \<and>
   actionMsg (ui (step (OnStart (length (sessions w))) (step ClickMic w))) = listening_msg"
  by (simp add: handleVoiceSearch_def onstart_def)

theorem start_voice_search_witness:
  "supported (initial True True upper_excerpt) \<and>
   sessions (step ClickMic (initial True True upper_excerpt)) =
     [\<lparr>lang = units ''en-IN'', continuous = False, interimResults = False, handlers = []\<rparr>] \<and>
   ui (step ClickMic (initial True True upper_excerpt)) = ui (initial True True upper_excerpt) \<and>
   isListening (ui (step (OnStart 0) (step ClickMic (initial True True upper_excerpt))))"
  using start_voice_search [of "initial True True upper_excerpt"]
  by (simp add: initial_def handleVoiceSearch_def onstart_def)

text \<open>
  C5 as stated fails on a fresh page: after the click, and before the recognition has
  reported anything, the page is not listening and shows no listening status.
\<close>

theorem start_does_not_listen:
  "\<not> isListening (ui (step ClickMic (initial True True upper_excerpt))) \<and>
   actionMsg (ui (step ClickMic (initial True True upper_excerpt))) \<noteq> listening_msg"
  by (simp add: handleVoiceSearch_def initial_def listening_msg_def)

subsection \<open>The callbacks of the recognition\<close>

text \<open>
  C6. Whatever events came before, once a started recognition reports its end the page is
  not listening.
\<close>

theorem onend_idle:
  "i < length (sessions (run es w)) \<Longrightarrow> \<not> isListening (ui (run (es @ [OnEnd i]) w))"
  by (simp add: run_append onend_def)

theorem onend_idle_witness:
  "0 < length (sessions (run [ClickMic, OnStart 0] (initial True True upper_excerpt))) \<and>
   isListening (ui (run [ClickMic, OnStart 0] (initial True True upper_excerpt))) \<and>
   \<not> isListening (ui (run ([ClickMic, OnStart 0] @ [OnEnd 0]) (initial True True upper_excerpt)))"
  using onend_idle [of 0 "[ClickMic, OnStart 0]" "initial True True upper_excerpt"]
  by (simp add: handler_defs initial_def)



text \<open>
  C1, as the code has it. A result schedules a callback and cancels none (the component
  never calls \<open>clearTimeout\<close>). After two results on started recognitions, the callbacks
  that waited before still wait, followed by two new ones with the delay of 800. When
  none waited before, the two fire one after the other, and each sends a request.
\<close>

theorem onresult_cancels_nothing:
  assumes "i < length (sessions w)" and "j < length (sessions w)"
  shows "(\<exists>t1 t2. timers (run [OnResult i a, OnResult j b] w) = timers w @ [t1, t2] \<and>
                  delay t1 = 800 \<and> delay t2 = 800) \<and>
         (timers w = [] \<longrightarrow>
            timers (run [OnResult i a, OnResult j b, Timeout, Timeout] w) = [] \<and>
            length (requests (run [OnResult i a, OnResult j b, Timeout, Timeout] w)) =
              length (requests w) + 2)"
  using assms by (simp add: onresult_def handleSearch_def)

theorem onresult_cancels_nothing_witness:
  "(0::nat) < length (sessions (step ClickMic (initial True True upper_excerpt))) \<and>
   timers (step ClickMic (initial True True upper_excerpt)) = [] \<and>
   length (timers (run [OnResult 0 (units ''MH 12''), OnResult 0 (units ''KA 05'')]
                       (step ClickMic (initial True True upper_excerpt)))) = 2 \<and>
   length (requests (run [OnResult 0 (units ''MH 12''), OnResult 0 (units ''KA 05''),
                          Timeout, Timeout]
                         (step ClickMic (initial True True upper_excerpt)))) = 2"
proof -
  let ?w = "step ClickMic (initial True True upper_excerpt)"
  let ?a = "units ''MH 12''"
  let ?b = "units ''KA 05''"
  have h: "(0::nat) < length (sessions ?w)"
    by (simp add: handleVoiceSearch_def initial_def)
  have t: "timers ?w = []"
    by (simp add: handleVoiceSearch_def initial_def)
  have r: "requests ?w = []"
    by (simp add: handleVoiceSearch_def initial_def)
  note inst = onresult_cancels_nothing [OF h h, of ?a ?b]
  from inst obtain t1 t2
    where "timers (run [OnResult 0 ?a, OnResult 0 ?b] ?w) = timers ?w @ [t1, t2]"
    by blast
  then have two: "length (timers (run [OnResult 0 ?a, OnResult 0 ?b] ?w)) = 2"
    by (simp only: t append_Nil length_Cons list.size)
  from inst t
  have "length (requests (run [OnResult 0 ?a, OnResult 0 ?b, Timeout, Timeout] ?w)) =
          length (requests ?w) + 2"
    by blast
  then have "length (requests (run [OnResult 0 ?a, OnResult 0 ?b, Timeout, Timeout] ?w)) = 2"
    by (simp only: r list.size)
  with h t two show ?thesis
    by blast
qed

text \<open>
  C1 as stated fails. Two recognitions report a result one after the other, before any
  callback has fired: two callbacks wait, not one, and two searches are executed.
\<close>

theorem two_results_two_searches:
  "length (timers (run [ClickMic, OnResult 0 (units ''MH 12''), ClickMic,
                        OnResult 1 (units ''KA 05'')]
                       (initial True True upper_excerpt))) = 2 \<and>
   length (requests (run [ClickMic, OnResult 0 (units ''MH 12''), ClickMic,
                          OnResult 1 (units ''KA 05''), Timeout, Timeout]
                         (initial True True upper_excerpt))) = 2"
  by (simp add: handler_defs initial_def)

text \<open>
  The key of a voice search, in general: the result stores the normalized transcript in
  \<open>searchReg\<close>, and the callback it schedules sends the request for \<open>searchReg\<close> of the
  closure registered on the recognition, that is, of the render in which the microphone
  was clicked.
\<close>

lemma click_registers_current_render:
  "supported w \<Longrightarrow> handlers (last (sessions (step ClickMic w))) = searchReg (ui w)"
  by (simp add: handleVoiceSearch_def)

lemma voice_search_request:
  "i < length (sessions w) \<Longrightarrow> timers w = [] \<Longrightarrow>
   searchReg (ui (run [OnResult i raw] w)) = normalize_transcript (upper_case w) raw \<and>
   requests (run [OnResult i raw, Timeout] w) =
     requests w @ [cars_url @ handlers (sessions w ! i)]"
  by (simp add: onresult_def handleSearch_def)

text \<open>
  C2, at the input of its scenario. On a fresh page the user clicks the microphone and
  says \<open>MH 12 AB 1234\<close>. The key \<open>MH12AB1234\<close> is stored in \<open>searchReg\<close>. The callback
  then calls \<open>handleSearch\<close> of the render in which the microphone was clicked, where
  \<open>searchReg\<close> was still empty: the request goes out for the empty key.
\<close>

theorem voice_search_stale_key:
  "searchReg (ui (run [ClickMic, OnStart 0, OnResult 0 (units ''MH 12 AB 1234'')]
                      (initial True True upper_excerpt))) = units ''MH12AB1234'' \<and>
   requests (run [ClickMic, OnStart 0, OnResult 0 (units ''MH 12 AB 1234''), Timeout]
                 (initial True True upper_excerpt)) = [units ''http://127.0.0.1:8000/cars/'']"
  by (simp add: eval_defs)

end
